theory Spec2Isabelle
  imports Complex_Main "HOL-Library.AList"
begin

section \<open>Numbers and vectors\<close>

text \<open>
  JavaScript numbers are read as finite reals: rounding and overflow of the IEEE doubles
  are not modelled. The one operation of the modelled code that leaves the finite numbers,
  a division by zero, is written out where it occurs (see \<open>NonFinite\<close> below).

  \<open>Vector3\<close> is the vector class of the rendering library. Its operations are given
  with the library's meaning: \<open>equals\<close> compares the three coordinates,
  \<open>Minimize\<close> clones its left argument and overwrites a coordinate with the right
  argument's when that one is smaller, \<open>Maximize\<close> when it is larger.
\<close>

datatype vector3 = Vector3 (vx: real) (vy: real) (vz: real)


definition Vector3_add :: "vector3 \<Rightarrow> vector3 \<Rightarrow> vector3" where
  "Vector3_add a b = Vector3 (vx a + vx b) (vy a + vy b) (vz a + vz b)"

definition Vector3_subtract :: "vector3 \<Rightarrow> vector3 \<Rightarrow> vector3" where
  "Vector3_subtract a b = Vector3 (vx a - vx b) (vy a - vy b) (vz a - vz b)"

definition Vector3_scale :: "vector3 \<Rightarrow> real \<Rightarrow> vector3" where
  "Vector3_scale a s = Vector3 (vx a * s) (vy a * s) (vz a * s)"

definition Vector3_equals :: "vector3 \<Rightarrow> vector3 \<Rightarrow> bool" where
  "Vector3_equals a b \<longleftrightarrow> vx a = vx b \<and> vy a = vy b \<and> vz a = vz b"

definition Vector3_Minimize :: "vector3 \<Rightarrow> vector3 \<Rightarrow> vector3" where
  "Vector3_Minimize left right =
     Vector3 (if vx right < vx left then vx right else vx left)
             (if vy right < vy left then vy right else vy left)
             (if vz right < vz left then vz right else vz left)"

definition Vector3_Maximize :: "vector3 \<Rightarrow> vector3 \<Rightarrow> vector3" where
  "Vector3_Maximize left right =
     Vector3 (if vx right > vx left then vx right else vx left)
             (if vy right > vy left then vy right else vy left)
             (if vz right > vz left then vz right else vz left)"

text \<open>\<open>Math.floor\<close>, with the result read back as a number.\<close>

definition Math_floor :: "real \<Rightarrow> real" where
  "Math_floor r = of_int \<lfloor>r\<rfloor>"

section \<open>Stages\<close>

subsection \<open>The saved map and the class registry\<close>

datatype jsval = JStr string | JNum real | JBool bool

type_synonym args = "(string \<times> jsval) list"

text \<open>
  \<open>Object.assign(target, source)\<close> on plain objects: every key of the source is
  written to the target, an existing key keeping its place, a new key going last.
\<close>

definition Object_assign :: "args \<Rightarrow> args \<Rightarrow> args" where
  "Object_assign target source = fold (\<lambda>(k, v). AList.update k v) source target"

record objdata =
  od_clsId :: int
  od_args :: args
  od_x :: real
  od_y :: real
  od_z :: real

text \<open>
  A saved map. The keys of \<open>objectsData\<close> are kept in insertion order, the order
  in which \<open>Object.keys\<close> lists them.
\<close>

record savedmap =
  chunksData :: "(string \<times> int list) list"
  objectsData :: "(string \<times> objdata) list"

text \<open>
  An entry of \<open>StageOptions.classes\<close>. The constructor \<open>cls\<close> is represented by
  what the modelled code asks of its instances: whether they define the play hooks.
\<close>

record clsdef =
  cls_clsId :: int
  cls_startPlaying :: bool
  cls_stopPlaying :: bool
  cls_args :: args

record gobject =
  obj_name :: string
  obj_position :: vector3
  obj_fields :: args
  obj_startPlaying :: bool
  obj_stopPlaying :: bool

record chunks =
  chunks_name :: string
  chunks_data :: "(string \<times> int list) list"
  chunks_position :: vector3

record stage =
  stage_url :: string
  stage_position :: vector3
  stage_chunks :: chunks
  stage_objects :: "gobject list"

text \<open>The effects of the modelled code on its surroundings, in the order they happen.\<close>

datatype event =
    Fetch string
  | ChunksCreated string
  | ObjectCreated string
  | WarnClassNotFound int string
  | StartPlaying string
  | StopPlaying string
  | ObjectDisposed string
  | ChunksDisposed string
  | OldestURLStored string

subsection \<open>The constructor of Stage\<close>

text \<open>\<open>str.split(sep)\<close> for a one-character separator.\<close>

primrec str_split :: "char \<Rightarrow> string \<Rightarrow> string list" where
  "str_split sep [] = [[]]"
| "str_split sep (c # cs) =
     (if c = sep then [] # str_split sep cs
      else (case str_split sep cs of
              [] \<Rightarrow> [[c]]
            | p # ps \<Rightarrow> (c # p) # ps))"

text \<open>
  \<open>url.split('.').slice(-2).shift()\<close>: the last but one piece of the url, or the
  whole url when it has no dot. \<open>split\<close> never returns an empty array, so the
  first case below is never taken.
\<close>

definition stage_name :: "string \<Rightarrow> string" where
  "stage_name url =
     (let parts = str_split (CHR ''.'') url;
          last2 = drop (length parts - 2) parts
      in case last2 of [] \<Rightarrow> [] | p # _ \<Rightarrow> p)"

text \<open>\<open>args.offsetY || 0\<close> for a numeric or missing \<open>offsetY\<close>.\<close>

definition args_offsetY :: "args \<Rightarrow> real" where
  "args_offsetY a = (case map_of a ''offsetY'' of Some (JNum r) \<Rightarrow> r | _ \<Rightarrow> 0)"

definition is_stage_entry :: "string \<times> objdata \<Rightarrow> bool" where
  "is_stage_entry e \<longleftrightarrow>
     map_of (od_args (snd e)) ''editorSingletonId'' = Some (JStr ''stage/entry'')"

text \<open>
  The position of the stage's chunks: the stage's position, moved back by the floored
  position of the map's entry object when the map has one (an entry whose id is the empty
  string is skipped by \<open>if (entryId)\<close>).
\<close>

definition entryPosition :: "vector3 \<Rightarrow> savedmap \<Rightarrow> vector3" where
  "entryPosition position m =
     (case find is_stage_entry (objectsData m) of
        None \<Rightarrow> position
      | Some (entryId, d) \<Rightarrow>
          if entryId = [] then position
          else Vector3_subtract position
                 (Vector3 (Math_floor (od_x d))
                          (Math_floor (od_y d + args_offsetY (od_args d)))
                          (Math_floor (od_z d))))"

text \<open>
  One round of the loop over \<open>Object.keys(map.objectsData)\<close>: an object of a known
  class is constructed and pushed, an unknown class id is warned about and skipped.
\<close>

definition Stage_addObject ::
  "clsdef list \<Rightarrow> vector3 \<Rightarrow> gobject list \<times> event list \<Rightarrow> string \<times> objdata
     \<Rightarrow> gobject list \<times> event list" where
  "Stage_addObject classes entry acc e =
     (case find (\<lambda>c. cls_clsId c = od_clsId (snd e)) classes of
        Some clsFound \<Rightarrow>
          (fst acc @
             [\<lparr> obj_name = fst e,
                obj_position =
                  Vector3_add (Vector3 (od_x (snd e)) (od_y (snd e)) (od_z (snd e))) entry,
                obj_fields = Object_assign (Object_assign [] (cls_args clsFound)) (od_args (snd e)),
                obj_startPlaying = cls_startPlaying clsFound,
                obj_stopPlaying = cls_stopPlaying clsFound \<rparr>],
           snd acc @ [ObjectCreated (fst e)])
      | None \<Rightarrow> (fst acc, snd acc @ [WarnClassNotFound (od_clsId (snd e)) (fst e)]))"


definition startPlaying_all :: "gobject list \<Rightarrow> event list" where
  "startPlaying_all objs =
     concat (map (\<lambda>ob. if obj_startPlaying ob then [StartPlaying (obj_name ob)] else []) objs)"

definition Stage_new ::
  "string \<Rightarrow> vector3 \<Rightarrow> savedmap \<Rightarrow> clsdef list \<Rightarrow> stage \<times> event list" where
  "Stage_new url position m classes =
     (let entry = entryPosition position m;
          name = stage_name url;
          ch = \<lparr> chunks_name = name, chunks_data = chunksData m, chunks_position = entry \<rparr>;
          built = foldl (Stage_addObject classes entry) ([], [ChunksCreated name]) (objectsData m)
      in (\<lparr> stage_url = url, stage_position = position, stage_chunks = ch,
            stage_objects = fst built \<rparr>,
          snd built @ startPlaying_all (fst built)))"

subsection \<open>Disposal of a Stage\<close>

definition stopPlaying_all :: "gobject list \<Rightarrow> event list" where
  "stopPlaying_all objs =
     concat (map (\<lambda>ob. if obj_stopPlaying ob then [StopPlaying (obj_name ob)] else []) objs)"

definition dispose_all :: "gobject list \<Rightarrow> event list" where
  "dispose_all objs = map (\<lambda>ob. ObjectDisposed (obj_name ob)) objs"

definition Stage_dispose :: "stage \<Rightarrow> event list" where
  "Stage_dispose st =
     stopPlaying_all (stage_objects st) @ dispose_all (stage_objects st)
       @ [ChunksDisposed (chunks_name (stage_chunks st))]"

fun is_stop :: "event \<Rightarrow> bool" where
  "is_stop (StopPlaying _) = True"
| "is_stop _ = False"

fun is_release :: "event \<Rightarrow> bool" where
  "is_release (ObjectDisposed _) = True"
| "is_release (ChunksDisposed _) = True"
| "is_release _ = False"

section \<open>The stage manager\<close>

text \<open>
  The state of a \<open>StageManager\<close>, with what its methods read and write outside of
  it: the class registry of its options, the static \<open>oldestURL\<close> (kept in
  \<open>localStorage\<close> under \<open>stage-oldest-url\<close>), and the trace of effects.
\<close>

record world =
  stages :: "stage list"
  isDisposed :: bool
  classes :: "clsdef list"
  oldestURL :: string
  trace :: "event list"

datatype load_error = FetchFailed

text \<open>
  \<open>doLoad\<close> has one suspension point, the \<open>await\<close> of the fetch. The guard
  before it and the continuation after it are given on their own, so that other calls can
  be placed between them.
\<close>

definition doLoad_found :: "world \<Rightarrow> string \<Rightarrow> vector3 \<Rightarrow> bool" where
  "doLoad_found w url position \<longleftrightarrow>
     find (\<lambda>st. stage_url st = url \<and> Vector3_equals (stage_position st) position) (stages w)
       \<noteq> None"

text \<open>
  The continuation: the body of \<open>if (!this.isDisposed)\<close>. After the push the list
  is not empty, and \<open>shift\<close> is only called on three or more stages, so
  \<open>this.stages[0]\<close> always exists; the empty cases below are never taken.
\<close>

definition doLoad_resume :: "world \<Rightarrow> string \<Rightarrow> vector3 \<Rightarrow> savedmap \<Rightarrow> world" where
  "doLoad_resume w url position m =
     (if isDisposed w then w
      else
        let built = Stage_new url position m (classes w);
            pushed = stages w @ [fst built];
            w1 = w\<lparr> stages := pushed, trace := trace w @ snd built \<rparr>;
            w2 = (if length pushed > 2
                  then (case pushed of
                          [] \<Rightarrow> w1
                        | first # rest \<Rightarrow>
                            w1\<lparr> stages := rest, trace := trace w1 @ Stage_dispose first \<rparr>)
                  else w1)
        in case stages w2 of
             [] \<Rightarrow> w2
           | s0 # _ \<Rightarrow>
               w2\<lparr> oldestURL := stage_url s0,
                   trace := trace w2 @ [OldestURLStored (stage_url s0)] \<rparr>)"

text \<open>
  \<open>doLoad\<close> run from its call to its return with nothing else scheduled during the
  fetch. The outcome of the fetch is an argument: \<open>None\<close> when the request or the
  parsing of its body fails, which rejects the promise of \<open>doLoad\<close>.
\<close>

definition doLoad ::
  "world \<Rightarrow> string \<Rightarrow> vector3 \<Rightarrow> savedmap option \<Rightarrow> world \<times> (load_error + string)" where
  "doLoad w url position fetched =
     (if doLoad_found w url position then (w, Inr url)
      else
        let w1 = w\<lparr> trace := trace w @ [Fetch url] \<rparr>
        in case fetched of
             None \<Rightarrow> (w1, Inl FetchFailed)
           | Some m \<Rightarrow> (doLoad_resume w1 url position m, Inr url))"

definition StageManager_dispose :: "world \<Rightarrow> world" where
  "StageManager_dispose w =
     w\<lparr> trace := trace w @ concat (map Stage_dispose (stages w)), isDisposed := True \<rparr>"

subsection \<open>Calls in flight\<close>

text \<open>
  Modelled from the spec: \<open>queue()\<close> of the utilities, which is not among the
  sources. The spec calls it a single-flight sequential queue: concurrent calls are
  serialized, and each call returns once its own load has completed. So the functions
  handed to \<open>addToQueue\<close> run one at a time, in the order of the calls, the next
  one starting when the promise of the one before has settled. A rejected load settles
  its own call only.

  The runtime holds the calls of \<open>loadFromURL\<close> that have not started, the call
  whose \<open>doLoad\<close> waits for its fetch, and the urls the settled calls resolved to or
  were rejected for.
\<close>

record runtime =
  rt_world :: world
  pending :: "(string \<times> vector3) list"
  running :: "(string \<times> vector3) option"
  resolved :: "string list"
  rejected :: "string list"

datatype input =
    LoadFromURL string vector3
  | FetchResolved savedmap
  | FetchRejected
  | Dispose

text \<open>
  Modelled from the spec: the part of \<open>queue()\<close> that starts the next call. The queued
  calls are started in order until one of them has to fetch: a call that finds its stage
  active returns at once, the first one that does not issues its fetch and holds the
  queue.
\<close>

primrec start_pending :: "(string \<times> vector3) list \<Rightarrow> runtime \<Rightarrow> runtime" where
  "start_pending [] rt = rt\<lparr> pending := [] \<rparr>"
| "start_pending (r # rest) rt =
     (if doLoad_found (rt_world rt) (fst r) (snd r)
      then start_pending rest (rt\<lparr> resolved := resolved rt @ [fst r] \<rparr>)
      else rt\<lparr> rt_world := (rt_world rt)\<lparr> trace := trace (rt_world rt) @ [Fetch (fst r)] \<rparr>,
               running := Some r, pending := rest \<rparr>)"

text \<open>
  Modelled from the spec: \<open>queue()\<close> is single-flight, so nothing is started while a
  call is running.
\<close>

definition queue_next :: "runtime \<Rightarrow> runtime" where
  "queue_next rt = (case running rt of Some _ \<Rightarrow> rt | None \<Rightarrow> start_pending (pending rt) rt)"

text \<open>
  One turn of the event loop: a call of \<open>loadFromURL\<close>, the completion or the failure
  of the fetch in flight, or a call of \<open>dispose\<close>.
\<close>

fun step :: "runtime \<Rightarrow> input \<Rightarrow> runtime" where
  "step rt (LoadFromURL url position) =
     queue_next (rt\<lparr> pending := pending rt @ [(url, position)] \<rparr>)"
| "step rt (FetchResolved m) =
     (case running rt of
        None \<Rightarrow> rt
      | Some r \<Rightarrow>
          queue_next (rt\<lparr> rt_world := doLoad_resume (rt_world rt) (fst r) (snd r) m,
                          running := None, resolved := resolved rt @ [fst r] \<rparr>))"
| "step rt FetchRejected =
     (case running rt of
        None \<Rightarrow> rt
      | Some r \<Rightarrow> queue_next (rt\<lparr> running := None, rejected := rejected rt @ [fst r] \<rparr>))"
| "step rt Dispose = rt\<lparr> rt_world := StageManager_dispose (rt_world rt) \<rparr>"

definition run :: "runtime \<Rightarrow> input list \<Rightarrow> runtime" where
  "run rt inputs = foldl step rt inputs"

fun is_construct :: "event \<Rightarrow> bool" where
  "is_construct (ChunksCreated _) = True"
| "is_construct (ObjectCreated _) = True"
| "is_construct _ = False"


section \<open>The cursor\<close>

subsection \<open>Picking\<close>

text \<open>
  What the cursor asks of the scene: the picking ray through a point of the screen, and
  the nearest hit of a ray among the meshes a predicate accepts. Both belong to the
  rendering library and depend on the camera and on the meshes of the moment, so a scene
  is given by these two functions.
\<close>

record ray =
  origin :: vector3
  direction :: vector3

record pickinfo =
  pick_hit :: bool
  pick_pickedPoint :: vector3
  pick_normal :: vector3

record 'm scene =
  createPickingRay :: "real \<Rightarrow> real \<Rightarrow> ray"
  pickWithRay :: "ray \<Rightarrow> ('m \<Rightarrow> bool) \<Rightarrow> pickinfo"

text \<open>
  \<open>NonFinite\<close>: a division by zero. In the source it raises nothing: the quotient is
  \<open>Infinity\<close> or \<open>NaN\<close>, the coordinate of the scaled direction along the zero
  component is \<open>0 * Infinity\<close> or \<open>0 * NaN\<close>, that is \<open>NaN\<close>, and
  \<open>Math.floor\<close> keeps it, so the position that is returned, and the \<open>hover\<close>
  of the cursor that takes it, has a coordinate that is not a number. The model stops
  there and reports \<open>NonFinite\<close> in place of that position.
  \<open>TypeError\<close>: a property read or a destructuring of \<open>undefined\<close>.
\<close>

datatype cursor_error = NonFinite | TypeError

definition CURSOR_NORMALS :: "vector3 list" where
  "CURSOR_NORMALS =
     [Vector3 1 0 0, Vector3 (-1) 0 0, Vector3 0 1 0, Vector3 0 (-1) 0,
      Vector3 0 0 1, Vector3 0 0 (-1)]"

text \<open>\<open>Array.prototype.indexOf\<close> (\<open>-1\<close> when absent) and the read of an index.\<close>

fun indexOf :: "real list \<Rightarrow> real \<Rightarrow> int" where
  "indexOf [] v = - 1"
| "indexOf (x # xs) v =
     (if x = v then 0 else (let i = indexOf xs v in if i < 0 then - 1 else i + 1))"

definition array_at :: "'a list \<Rightarrow> int \<Rightarrow> 'a option" where
  "array_at xs i = (if 0 \<le> i \<and> i < int (length xs) then Some (xs ! nat i) else None)"

text \<open>
  \<open>position.copyFromFloats(Math.floor(position.x + 0.5), ...)\<close>, written twice in the
  source.
\<close>

definition floor_half :: "vector3 \<Rightarrow> vector3" where
  "floor_half p =
     Vector3 (Math_floor (vx p + 0.5)) (Math_floor (vy p + 0.5)) (Math_floor (vz p + 0.5))"



datatype axis = AxisX | AxisY | AxisZ

text \<open>\<open>v[axis]\<close> for an axis \<open>'x' | 'y' | 'z'\<close>.\<close>

fun component :: "vector3 \<Rightarrow> axis \<Rightarrow> real" where
  "component v AxisX = vx v"
| "component v AxisY = vy v"
| "component v AxisZ = vz v"

definition getMousePickOnPlane ::
  "'m scene \<Rightarrow> real \<Rightarrow> real \<Rightarrow> axis \<Rightarrow> real \<Rightarrow> cursor_error + vector3" where
  "getMousePickOnPlane sc px py ax val =
     (let r = createPickingRay sc px py
      in if component (direction r) ax = 0 then Inl NonFinite
         else
           let scale = (val - component (origin r) ax) / component (direction r) ax
           in Inr (floor_half (Vector3_add (origin r) (Vector3_scale (direction r) scale))))"

subsection \<open>The table of directions\<close>

definition VECTOR_ONE :: vector3 where
  "VECTOR_ONE = Vector3 1 1 1"


text \<open>
  The entries of \<open>DIRECTIONS\<close>: rotation, delta, axis, and the three letters of the
  last string, which the source destructures into \<open>[i, j, k]\<close>.
\<close>

definition DIRECTIONS :: "(string \<times> vector3 \<times> vector3 \<times> axis \<times> axis \<times> axis \<times> axis) list" where
  "DIRECTIONS =
     [(''1/0/0'',  Vector3 0 0 (-1), Vector3 1 1 1,    AxisX, AxisY, AxisX, AxisZ),
      (''-1/0/0'', Vector3 0 0 1,    Vector3 (-1) 1 1, AxisX, AxisY, AxisX, AxisZ),
      (''0/1/0'',  Vector3 0 0 0,    Vector3 1 1 1,    AxisY, AxisX, AxisY, AxisZ),
      (''0/-1/0'', Vector3 0 0 (-2), Vector3 1 (-1) 1, AxisY, AxisX, AxisY, AxisZ),
      (''0/0/1'',  Vector3 1 0 0,    Vector3 1 1 1,    AxisZ, AxisX, AxisZ, AxisY),
      (''0/0/-1'', Vector3 (-1) 0 0, Vector3 1 1 (-1), AxisZ, AxisX, AxisZ, AxisY)]"

text \<open>
  The string of a number, given for whole numbers: the cursor prints the coordinates of
  an entry of \<open>CURSOR_NORMALS\<close> only. \<open>join\<close> is \<open>Array.prototype.join\<close> on
  the strings of the elements.
\<close>

fun nat_toString :: "nat \<Rightarrow> string" where
  "nat_toString n =
     (if n < 10 then [''0123456789'' ! n]
      else nat_toString (n div 10) @ [''0123456789'' ! (n mod 10)])"

definition Number_toString :: "real \<Rightarrow> string" where
  "Number_toString r =
     (if r < 0 then CHR ''-'' # nat_toString (nat \<lfloor>- r\<rfloor>) else nat_toString (nat \<lfloor>r\<rfloor>))"

fun join :: "string \<Rightarrow> string list \<Rightarrow> string" where
  "join sep [] = []"
| "join sep [s] = s"
| "join sep (s # t # ss) = s @ sep @ join sep (t # ss)"

subsection \<open>The cursor and its handlers\<close>

text \<open>
  The fields of \<open>Cursor\<close>, with the \<open>position\<close>, \<open>rotation\<close> and
  \<open>scaling\<close> it inherits from the mesh class. The scene is an argument of the handlers,
  since it changes between two events.
\<close>

record 'm cursor =
  offset_x :: real
  offset_y :: real
  hover :: vector3
  minimum :: vector3
  maximum :: vector3
  start :: vector3
  cursor_direction :: string
  isKeyDown :: bool
  pickFilter :: "'m \<Rightarrow> bool"
  mesh_position :: vector3
  mesh_rotation :: vector3
  mesh_scaling :: vector3



definition updateWithMouseDown ::
  "'m cursor \<Rightarrow> 'm scene \<Rightarrow> real \<Rightarrow> real \<Rightarrow> cursor_error + 'm cursor" where
  "updateWithMouseDown c sc clientX clientY =
     (case map_of DIRECTIONS (cursor_direction c) of
        None \<Rightarrow> Inl TypeError
      | Some (rot, delta, ax, i, j, k) \<Rightarrow>
          (case getMousePickOnPlane sc (clientX + offset_x c) (clientY + offset_y c) ax
                  (component (start c) ax) of
             Inl e \<Rightarrow> Inl e
           | Inr p \<Rightarrow>
               let mn = Vector3_Minimize (start c) p;
                   mx = Vector3_add (Vector3_Maximize (start c) p) VECTOR_ONE;
                   scaling = Vector3_subtract mx mn
               in Inr (c\<lparr> hover := p,
                          minimum := mn,
                          maximum := mx,
                          mesh_position := Vector3_scale (Vector3_add mn mx) 0.5,
                          mesh_scaling :=
                            Vector3 (component scaling i) (component scaling j)
                              (component scaling k) \<rparr>)))"




subsection \<open>The properties of the corners\<close>

text \<open>
  The words of the spec for the corners of the drag rectangle: the elementwise minimum
  and maximum of two vectors.
\<close>

definition elementwise_min :: "vector3 \<Rightarrow> vector3 \<Rightarrow> vector3" where
  "elementwise_min a b = Vector3 (min (vx a) (vx b)) (min (vy a) (vy b)) (min (vz a) (vz b))"

definition elementwise_max :: "vector3 \<Rightarrow> vector3 \<Rightarrow> vector3" where
  "elementwise_max a b = Vector3 (max (vx a) (vx b)) (max (vy a) (vy b)) (max (vz a) (vz b))"

definition is_integer :: "real \<Rightarrow> bool" where
  "is_integer r \<longleftrightarrow> r = of_int \<lfloor>r\<rfloor>"




section \<open>The editor\<close>

subsection \<open>The object manager\<close>

text \<open>
  What \<open>objectManager\<close> reads and writes: the meshes of the scene in the order of
  their creation, \<open>map.objectsData\<close>, the selected object and the warnings of the
  console. A mesh is taken for its record, so the scene is assumed to hold no two meshes
  equal in every field; \<open>selectedObject === object\<close> is then the equality of records.
\<close>

datatype tag = TAGS_object | TAGS_block

record emesh =
  mesh_name :: string
  mesh_tags :: "tag list"
  mesh_place :: vector3
  mesh_fields :: args

record edentry =
  ee_clsId :: int
  ee_args :: args

record editor =
  ed_meshes :: "emesh list"
  ed_objectsData :: "(string \<times> edentry) list"
  selectedObject :: "emesh option"
  ed_console :: "event list"

definition objectManager_destroy :: "editor \<Rightarrow> string \<Rightarrow> editor" where
  "objectManager_destroy ed oid =
     (let ed1 = (case find (\<lambda>m. mesh_name m = oid) (ed_meshes ed) of
                   None \<Rightarrow> ed
                 | Some object \<Rightarrow>
                     ed\<lparr> selectedObject :=
                           (if selectedObject ed = Some object then None else selectedObject ed),
                         ed_meshes := remove1 object (ed_meshes ed) \<rparr>)
      in ed1\<lparr> ed_objectsData := AList.delete oid (ed_objectsData ed1) \<rparr>)"

text \<open>
  \<open>restoreArgs\<close> is optional; \<open>Object.assign\<close> skips an undefined source, which is
  the empty list of arguments here.
\<close>

definition objectManager_create ::
  "clsdef list \<Rightarrow> editor \<Rightarrow> string \<Rightarrow> int \<Rightarrow> vector3 \<Rightarrow> args \<Rightarrow> editor" where
  "objectManager_create cs ed oid clsId place restoreArgs =
     (let ed1 = objectManager_destroy ed oid
      in case find (\<lambda>c. cls_clsId c = clsId) cs of
           Some clsFound \<Rightarrow>
             let a = Object_assign (Object_assign [] (cls_args clsFound)) restoreArgs;
                 object = \<lparr> mesh_name = oid, mesh_tags = [TAGS_object], mesh_place = place,
                            mesh_fields = a \<rparr>
             in ed1\<lparr> ed_meshes := ed_meshes ed1 @ [object],
                     ed_objectsData :=
                       AList.update oid \<lparr> ee_clsId = clsId, ee_args = a \<rparr> (ed_objectsData ed1),
                     selectedObject := Some object \<rparr>
         | None \<Rightarrow> ed1\<lparr> ed_console := ed_console ed1 @ [WarnClassNotFound clsId oid] \<rparr>)"

subsection \<open>The rectangle brush\<close>

text \<open>
  \<open>parseInt(string)\<close> without a radix: leading white space is skipped, then come an
  optional sign, an optional \<open>0x\<close> that selects base 16, and the longest run of digits
  of the base; what follows is ignored. \<open>None\<close> stands for \<open>NaN\<close>, the result
  when there is no digit. Characters are bytes, so of the white space only the ASCII
  characters are known.
\<close>

definition isWhiteSpace :: "char \<Rightarrow> bool" where
  "isWhiteSpace c \<longleftrightarrow> (of_char c :: nat) \<in> {9, 10, 11, 12, 13, 32}"

definition digitOf :: "char \<Rightarrow> nat option" where
  "digitOf c =
     (let n = (of_char c :: nat)
      in if 48 \<le> n \<and> n \<le> 57 then Some (n - 48)
         else if 97 \<le> n \<and> n \<le> 122 then Some (n - 87)
         else if 65 \<le> n \<and> n \<le> 90 then Some (n - 55)
         else None)"

fun takeDigits :: "nat \<Rightarrow> string \<Rightarrow> nat list" where
  "takeDigits radix [] = []"
| "takeDigits radix (c # cs) =
     (case digitOf c of
        None \<Rightarrow> []
      | Some d \<Rightarrow> if d < radix then d # takeDigits radix cs else [])"

definition fromDigits :: "nat \<Rightarrow> nat list \<Rightarrow> nat" where
  "fromDigits radix ds = foldl (\<lambda>acc d. acc * radix + d) 0 ds"

definition parseInt :: "string \<Rightarrow> int option" where
  "parseInt s =
     (let s1 = dropWhile isWhiteSpace s;
          signed = (case s1 of
                      [] \<Rightarrow> (False, s1)
                    | c # cs \<Rightarrow>
                        if c = CHR ''-'' then (True, cs)
                        else if c = CHR ''+'' then (False, cs)
                        else (False, s1));
          based = (case snd signed of
                     a # b # cs \<Rightarrow>
                       if a = CHR ''0'' \<and> (b = CHR ''x'' \<or> b = CHR ''X'') then (16, cs)
                       else (10, snd signed)
                   | _ \<Rightarrow> (10, snd signed));
          ds = takeDigits (fst based) (snd based)
      in if ds = [] then None
         else Some ((if fst signed then - 1 else 1) * int (fromDigits (fst based) ds)))"

text \<open>
  The height of the pixel the brush writes: the empty string of an empty selection, which
  \<open>h && ...\<close> passes on, or a number, or \<open>NaN\<close> when the selection holds no digit.
\<close>

datatype pixel_height = HEmpty | HNum real | HNaN

record 't pixel =
  pixel_t :: 't
  pixel_h :: pixel_height

datatype 't history_call =
    Push_SetPixelAction real real "'t pixel"
  | Commit

text \<open>
  The values of \<open>for (let m = lo; m < hi; m ++)\<close>. The loop ends: the distance to
  \<open>hi\<close> shrinks by one with every round.
\<close>

function loop_values :: "real \<Rightarrow> real \<Rightarrow> real list" where
  "loop_values m hi = (if m < hi then m # loop_values (m + 1) hi else [])"
  by pat_completeness auto
termination
  by (relation "measure (\<lambda>(m, hi). nat \<lceil>hi - m\<rceil>)") (auto, linarith)

declare loop_values.simps [simp del]

text \<open>
  The handler of the button release of the shift drag, as the calls it makes on the
  history: one \<open>SetPixelAction\<close> for every cell of the rectangle between the corners of
  the cursor, then the commit. \<open>t\<close> is the type of \<open>selectedPixel\<close>, set when the
  drag began, and \<open>h\<close> the height selection of the tile panel.
\<close>

definition shiftBrush_onUp :: "'m cursor \<Rightarrow> string \<Rightarrow> 't \<Rightarrow> 't history_call list" where
  "shiftBrush_onUp c h t =
     (let px = \<lparr> pixel_t = t,
                 pixel_h = (if h = [] then HEmpty
                            else (case parseInt h of
                                    None \<Rightarrow> HNaN
                                  | Some k \<Rightarrow> HNum (vy (maximum c) - 1 + of_int k))) \<rparr>
      in concat (map (\<lambda>m. map (\<lambda>n. Push_SetPixelAction m n px)
                            (loop_values (vz (minimum c)) (vz (maximum c))))
                   (loop_values (vx (minimum c)) (vx (maximum c))))
         @ [Commit])"

section \<open>Example data\<close>

text \<open>Concrete maps, stages and pagers, on which the theorems below are instantiated.\<close>

definition example_classes :: "clsdef list" where
  "example_classes =
     [\<lparr> cls_clsId = 1, cls_startPlaying = True, cls_stopPlaying = True,
        cls_args = [(''speed'', JNum 2)] \<rparr>]"

definition example_map :: savedmap where
  "example_map =
     \<lparr> chunksData = [],
       objectsData =
         [(''lift'', \<lparr> od_clsId = 1, od_args = [(''speed'', JNum 3)], od_x = 1, od_y = 0, od_z = 2 \<rparr>),
          (''ghost'', \<lparr> od_clsId = 9, od_args = [], od_x = 0, od_y = 0, od_z = 0 \<rparr>)] \<rparr>"

definition example_lift :: gobject where
  "example_lift =
     \<lparr> obj_name = ''lift'', obj_position = Vector3 1 0 2, obj_fields = [(''speed'', JNum 3)],
       obj_startPlaying = True, obj_stopPlaying = True \<rparr>"

definition example_stage_at :: "string \<Rightarrow> string \<Rightarrow> stage" where
  "example_stage_at url name =
     \<lparr> stage_url = url, stage_position = Vector3 0 0 0,
       stage_chunks = \<lparr> chunks_name = name, chunks_data = [], chunks_position = Vector3 0 0 0 \<rparr>,
       stage_objects = [example_lift] \<rparr>"

definition example_world :: world where
  "example_world =
     \<lparr> stages = [example_stage_at ''a.json'' ''a'', example_stage_at ''b.json'' ''b''],
       isDisposed = False, classes = example_classes, oldestURL = ''a.json'', trace = [] \<rparr>"


definition example_objects :: "gobject list" where
  "example_objects =
     [\<lparr> obj_name = ''door'', obj_position = Vector3 0 0 0, obj_fields = [],
        obj_startPlaying = True, obj_stopPlaying = True \<rparr>,
      \<lparr> obj_name = ''tree'', obj_position = Vector3 1 0 0, obj_fields = [],
        obj_startPlaying = False, obj_stopPlaying = False \<rparr>,
      \<lparr> obj_name = ''lift'', obj_position = Vector3 2 0 0, obj_fields = [],
        obj_startPlaying = True, obj_stopPlaying = True \<rparr>]"

definition example_stage3 :: stage where
  "example_stage3 =
     \<lparr> stage_url = ''a.json'', stage_position = Vector3 0 0 0,
       stage_chunks = \<lparr> chunks_name = ''a'', chunks_data = [], chunks_position = Vector3 0 0 0 \<rparr>,
       stage_objects = example_objects \<rparr>"

definition example_loading :: runtime where
  "example_loading =
     \<lparr> rt_world = example_world\<lparr> trace := [Fetch ''c.json''] \<rparr>, pending = [],
       running = Some (''c.json'', Vector3 0 0 0), resolved = [], rejected = [] \<rparr>"


text \<open>
  Scenes with a fixed camera. In the first the ray starts at height 3 and descends; in
  the second it is parallel to the ground. Nothing is hit in either. The third has a
  block under the descending ray.
\<close>

definition empty_scene :: "unit scene" where
  "empty_scene =
     \<lparr> createPickingRay = (\<lambda>px py. \<lparr> origin = Vector3 px 3 py, direction = Vector3 0.5 (-2) 1 \<rparr>),
       pickWithRay = (\<lambda>r flt. \<lparr> pick_hit = False, pick_pickedPoint = Vector3 0 0 0,
                                pick_normal = Vector3 0 0 0 \<rparr>) \<rparr>"



definition accept_all :: "unit \<Rightarrow> bool" where
  "accept_all u = True"

text \<open>The cursor after a pick in the first scene, at the screen point \<open>(1, 2)\<close>.\<close>

definition picked_cursor :: "unit cursor" where
  "picked_cursor =
     \<lparr> offset_x = 0, offset_y = 0, hover = Vector3 2 0 4, minimum = Vector3 2 0 4,
       maximum = Vector3 3 1 5, start = Vector3 2 0 4, cursor_direction = ''0/1/0'',
       isKeyDown = False, pickFilter = accept_all,
       mesh_position = Vector3 2.5 0.5 4.5, mesh_rotation = Vector3 0 0 0,
       mesh_scaling = Vector3 1 1 1 \<rparr>"


text \<open>An editor with one object, and the cursor after the drag of the example.\<close>

definition example_editor :: editor where
  "example_editor =
     \<lparr> ed_meshes = [\<lparr> mesh_name = ''object/lift/1'', mesh_tags = [TAGS_object],
                      mesh_place = Vector3 1 0 2, mesh_fields = [(''speed'', JNum 2)] \<rparr>],
       ed_objectsData = [(''object/lift/1'', \<lparr> ee_clsId = 1, ee_args = [(''speed'', JNum 2)] \<rparr>)],
       selectedObject = None, ed_console = [] \<rparr>"

definition dragged_cursor :: "unit cursor" where
  "dragged_cursor =
     picked_cursor\<lparr> hover := Vector3 3 0 5, minimum := Vector3 2 0 4, maximum := Vector3 4 1 6 \<rparr>"

section \<open>Disposal of a stage\<close>

lemma append_order:
  assumes "\<forall>a \<in> set A. \<not> is_release a" "\<forall>b \<in> set B. \<not> is_stop b"
    and "i < length (A @ B)" "j < length (A @ B)" "is_stop ((A @ B) ! i)" "is_release ((A @ B) ! j)"
  shows "i < j"
proof -
  have "i < length A" using assms(2,3,5) by (auto simp: nth_append split: if_splits)
  moreover have "\<not> j < length A" using assms(1,4,6) by (auto simp: nth_append split: if_splits)
  ultimately show ?thesis by simp
qed

lemma stopPlaying_all_stops: "e \<in> set (stopPlaying_all objs) \<Longrightarrow> \<not> is_release e"
  by (auto simp: stopPlaying_all_def split: if_splits)

lemma releases_not_stop:
  "e \<in> set (dispose_all objs @ [ChunksDisposed n]) \<Longrightarrow> \<not> is_stop e"
  by (auto simp: dispose_all_def)

text \<open>
  Claim C8. \<open>Stage.dispose\<close> first calls \<open>stopPlaying\<close> on every object of the
  stage that defines it, and on no other; only afterwards it disposes the objects and the
  chunks: every object and the chunks are released, and in the trace of the call every
  \<open>stopPlaying\<close> stands before every release, however many objects define the hook.
\<close>

theorem Stage_dispose_stops_first:
  "(\<forall>ob \<in> set (stage_objects st). obj_stopPlaying ob \<longrightarrow> StopPlaying (obj_name ob) \<in> set (Stage_dispose st))
   \<and> (\<forall>n. StopPlaying n \<in> set (Stage_dispose st) \<longrightarrow>
          (\<exists>ob \<in> set (stage_objects st). obj_stopPlaying ob \<and> obj_name ob = n))
   \<and> (\<forall>ob \<in> set (stage_objects st). ObjectDisposed (obj_name ob) \<in> set (Stage_dispose st))
   \<and> ChunksDisposed (chunks_name (stage_chunks st)) \<in> set (Stage_dispose st)
   \<and> (\<forall>i j. i < length (Stage_dispose st) \<and> j < length (Stage_dispose st)
          \<and> is_stop (Stage_dispose st ! i) \<and> is_release (Stage_dispose st ! j) \<longrightarrow> i < j)"
proof (intro conjI)
  show "\<forall>ob \<in> set (stage_objects st). obj_stopPlaying ob \<longrightarrow> StopPlaying (obj_name ob) \<in> set (Stage_dispose st)"
    by (auto simp: Stage_dispose_def stopPlaying_all_def)
  show "\<forall>n. StopPlaying n \<in> set (Stage_dispose st) \<longrightarrow>
          (\<exists>ob \<in> set (stage_objects st). obj_stopPlaying ob \<and> obj_name ob = n)"
    by (auto simp: Stage_dispose_def stopPlaying_all_def dispose_all_def split: if_splits)
  show "\<forall>ob \<in> set (stage_objects st). ObjectDisposed (obj_name ob) \<in> set (Stage_dispose st)"
    by (auto simp: Stage_dispose_def dispose_all_def)
  show "ChunksDisposed (chunks_name (stage_chunks st)) \<in> set (Stage_dispose st)"
    by (simp add: Stage_dispose_def)
  show "\<forall>i j. i < length (Stage_dispose st) \<and> j < length (Stage_dispose st)
          \<and> is_stop (Stage_dispose st ! i) \<and> is_release (Stage_dispose st ! j) \<longrightarrow> i < j"
  proof (intro allI impI)
    fix i j
    assume h: "i < length (Stage_dispose st) \<and> j < length (Stage_dispose st)
          \<and> is_stop (Stage_dispose st ! i) \<and> is_release (Stage_dispose st ! j)"
    let ?A = "stopPlaying_all (stage_objects st)"
    let ?B = "dispose_all (stage_objects st) @ [ChunksDisposed (chunks_name (stage_chunks st))]"
    have eq: "Stage_dispose st = ?A @ ?B" by (simp add: Stage_dispose_def)
    show "i < j"
      using append_order [of ?A ?B i j] h stopPlaying_all_stops releases_not_stop
      unfolding eq by blast
  qed
qed

lemma example_stage3_dispose: "Stage_dispose example_stage3 =
     [StopPlaying ''door'', StopPlaying ''lift'',
      ObjectDisposed ''door'', ObjectDisposed ''tree'', ObjectDisposed ''lift'',
      ChunksDisposed ''a'']"
  by (simp add: Stage_dispose_def example_stage3_def example_objects_def stopPlaying_all_def dispose_all_def)

theorem Stage_dispose_stops_first_witness:
  "Stage_dispose example_stage3 =
     [StopPlaying ''door'', StopPlaying ''lift'',
      ObjectDisposed ''door'', ObjectDisposed ''tree'', ObjectDisposed ''lift'',
      ChunksDisposed ''a'']
   \<and> is_stop (Stage_dispose example_stage3 ! 1) \<and> is_release (Stage_dispose example_stage3 ! 2)
   \<and> (1::nat) < 2"
  using Stage_dispose_stops_first [of example_stage3]
  by (simp add: example_stage3_dispose)

section \<open>The stage manager: loads, eviction and disposal\<close>

subsection \<open>Facts about the constructor\<close>

lemma Stage_new_url [simp]: "stage_url (fst (Stage_new url position m cs)) = url"
  by (simp add: Stage_new_def Let_def)

lemma Stage_new_position [simp]: "stage_position (fst (Stage_new url position m cs)) = position"
  by (simp add: Stage_new_def Let_def)








lemma stopPlaying_all_no_construct: "filter is_construct (stopPlaying_all objs) = []"
  by (induction objs) (simp_all add: stopPlaying_all_def)

lemma dispose_all_no_construct: "filter is_construct (dispose_all objs) = []"
  by (induction objs) (simp_all add: dispose_all_def)

lemma Stage_dispose_no_construct: "filter is_construct (Stage_dispose st) = []"
  by (simp add: Stage_dispose_def stopPlaying_all_no_construct dispose_all_no_construct)

lemma concat_dispose_no_construct: "filter is_construct (concat (map Stage_dispose sts)) = []"
  by (induction sts) (simp_all add: Stage_dispose_no_construct)

subsection \<open>Facts about the continuation of doLoad\<close>

lemma doLoad_resume_disposed: "isDisposed w \<Longrightarrow> doLoad_resume w url position m = w"
  by (simp add: doLoad_resume_def)


lemma doLoad_resume_isDisposed: "isDisposed (doLoad_resume w url position m) = isDisposed w"
  by (auto simp: doLoad_resume_def Let_def split: list.splits)

lemma doLoad_resume_classes: "classes (doLoad_resume w url position m) = classes w"
  by (auto simp: doLoad_resume_def Let_def split: list.splits)


lemma doLoad_resume_oldestURL:
  "\<not> isDisposed w \<Longrightarrow>
   oldestURL (doLoad_resume w url position m) = stage_url (hd (stages (doLoad_resume w url position m)))"
  by (cases "stages w") (auto simp: doLoad_resume_def Let_def split: list.splits)



lemma doLoad_resume_evicts:
  "stages w = [a, b] \<Longrightarrow> \<not> isDisposed w \<Longrightarrow>
   doLoad_resume w url position m =
     w\<lparr> stages := [b, fst (Stage_new url position m (classes w))],
        trace := trace w @ snd (Stage_new url position m (classes w)) @ Stage_dispose a
                   @ [OldestURLStored (stage_url b)],
        oldestURL := stage_url b \<rparr>"
  by (simp add: doLoad_resume_def Let_def)

subsection \<open>Facts about the queue\<close>

lemma start_pending_world:
  "stages (rt_world (start_pending ps rt)) = stages (rt_world rt)
   \<and> isDisposed (rt_world (start_pending ps rt)) = isDisposed (rt_world rt)
   \<and> classes (rt_world (start_pending ps rt)) = classes (rt_world rt)
   \<and> oldestURL (rt_world (start_pending ps rt)) = oldestURL (rt_world rt)"
  by (induction ps arbitrary: rt) simp_all

lemma start_pending_trace:
  "\<exists>new. trace (rt_world (start_pending ps rt)) = trace (rt_world rt) @ new
         \<and> filter is_construct new = []"
proof (induction ps arbitrary: rt)
  case Nil
  then show ?case by simp
next
  case (Cons r rest)
  show ?case
  proof (cases "doLoad_found (rt_world rt) (fst r) (snd r)")
    case True
    then show ?thesis
      using Cons.IH [of "rt\<lparr> resolved := resolved rt @ [fst r] \<rparr>"] by simp
  next
    case False
    then show ?thesis by simp
  qed
qed

lemma queue_next_world:
  "stages (rt_world (queue_next rt)) = stages (rt_world rt)
   \<and> isDisposed (rt_world (queue_next rt)) = isDisposed (rt_world rt)"
  by (simp add: queue_next_def start_pending_world split: option.splits)

lemma queue_next_trace:
  "\<exists>new. trace (rt_world (queue_next rt)) = trace (rt_world rt) @ new
         \<and> filter is_construct new = []"
  using start_pending_trace [of "pending rt" rt]
  by (auto simp: queue_next_def split: option.splits)



text \<open>A step of a disposed pager constructs nothing and keeps the list of stages.\<close>

lemma step_disposed:
  assumes "isDisposed (rt_world rt)"
  shows "stages (rt_world (step rt i)) = stages (rt_world rt)
         \<and> isDisposed (rt_world (step rt i))
         \<and> (\<exists>new. trace (rt_world (step rt i)) = trace (rt_world rt) @ new
                  \<and> filter is_construct new = [])"
proof (cases i)
  case (LoadFromURL url position)
  then show ?thesis
    using assms queue_next_trace [of "rt\<lparr> pending := pending rt @ [(url, position)] \<rparr>"]
    by (simp add: queue_next_world)
next
  case (FetchResolved m)
  show ?thesis
  proof (cases "running rt")
    case None
    then show ?thesis using assms FetchResolved by simp
  next
    case (Some r)
    then show ?thesis
      using assms FetchResolved
        queue_next_trace [of "rt\<lparr> rt_world := rt_world rt, running := None,
                                 resolved := resolved rt @ [fst r] \<rparr>"]
      by (simp add: queue_next_world doLoad_resume_disposed)
  qed
next
  case FetchRejected
  show ?thesis
  proof (cases "running rt")
    case None
    then show ?thesis using assms FetchRejected by simp
  next
    case (Some r)
    then show ?thesis
      using assms FetchRejected
        queue_next_trace [of "rt\<lparr> running := None, rejected := rejected rt @ [fst r] \<rparr>"]
      by (simp add: queue_next_world)
  qed
next
  case Dispose
  then show ?thesis
    using assms by (simp add: StageManager_dispose_def concat_dispose_no_construct)
qed

lemma run_disposed:
  "isDisposed (rt_world rt) \<Longrightarrow>
   stages (rt_world (run rt inputs)) = stages (rt_world rt)
   \<and> isDisposed (rt_world (run rt inputs))
   \<and> (\<exists>new. trace (rt_world (run rt inputs)) = trace (rt_world rt) @ new
            \<and> filter is_construct new = [])"
proof (induction inputs arbitrary: rt)
  case Nil
  then show ?case by (simp add: run_def)
next
  case (Cons i inputs)
  have s: "stages (rt_world (step rt i)) = stages (rt_world rt)"
    and d: "isDisposed (rt_world (step rt i))"
    using step_disposed [OF Cons.prems, of i] by simp_all
  obtain n1 where n1: "trace (rt_world (step rt i)) = trace (rt_world rt) @ n1"
      "filter is_construct n1 = []"
    using step_disposed [OF Cons.prems, of i] by blast
  obtain n2 where n2: "trace (rt_world (run (step rt i) inputs)) = trace (rt_world (step rt i)) @ n2"
      "filter is_construct n2 = []"
    using Cons.IH [OF d] by blast
  have r: "run rt (i # inputs) = run (step rt i) inputs" by (simp add: run_def)
  have "trace (rt_world (run rt (i # inputs))) = trace (rt_world rt) @ (n1 @ n2)"
    by (simp add: r n1 n2)
  moreover have "filter is_construct (n1 @ n2) = []" by (simp add: n1 n2)
  moreover have "stages (rt_world (run rt (i # inputs))) = stages (rt_world rt)"
    using Cons.IH [OF d] s by (simp add: r)
  moreover have "isDisposed (rt_world (run rt (i # inputs)))"
    using Cons.IH [OF d] by (simp add: r)
  ultimately show ?case by blast
qed

text \<open>
  A single call on an idle queue, followed by the completion of its fetch, is
  \<open>doLoad\<close> run without interruption.
\<close>

lemma run_single_load:
  assumes "running rt = None" and "pending rt = []"
    and "\<not> doLoad_found (rt_world rt) url position"
  shows "rt_world (run rt [LoadFromURL url position, FetchResolved m]) =
           fst (doLoad (rt_world rt) url position (Some m))"
    and "resolved (run rt [LoadFromURL url position, FetchResolved m]) = resolved rt @ [url]"
  using assms by (simp_all add: run_def queue_next_def doLoad_def)

lemma run_single_load_found:
  assumes "running rt = None" and "pending rt = []"
    and "doLoad_found (rt_world rt) url position"
  shows "rt_world (run rt [LoadFromURL url position]) = fst (doLoad (rt_world rt) url position f)"
    and "resolved (run rt [LoadFromURL url position]) = resolved rt @ [url]"
  using assms by (simp_all add: run_def queue_next_def doLoad_def)

subsection \<open>The example pager\<close>

lemma stage_name_c: "stage_name ''c.json'' = ''c''"
  by (simp add: stage_name_def)

lemma example_Stage_new:
  "Stage_new ''c.json'' (Vector3 0 0 0) example_map example_classes =
     (example_stage_at ''c.json'' ''c'',
      [ChunksCreated ''c'', ObjectCreated ''lift'', WarnClassNotFound 9 ''ghost'',
       StartPlaying ''lift''])"
  by (simp add: Stage_new_def Let_def stage_name_c entryPosition_def example_map_def
      is_stage_entry_def example_classes_def Stage_addObject_def startPlaying_all_def
      example_stage_at_def example_lift_def Object_assign_def Vector3_add_def)

lemma example_not_found: "\<not> doLoad_found example_world ''c.json'' (Vector3 0 0 0)"
  by (simp add: doLoad_found_def example_world_def example_stage_at_def)

lemma example_Stage_dispose:
  "Stage_dispose (example_stage_at url name) =
     [StopPlaying ''lift'', ObjectDisposed ''lift'', ChunksDisposed name]"
  by (simp add: Stage_dispose_def example_stage_at_def example_lift_def stopPlaying_all_def
      dispose_all_def)

lemma example_stage_url: "stage_url (example_stage_at url name) = url"
  by (simp add: example_stage_at_def)

lemma example_doLoad:
  "doLoad example_world ''c.json'' (Vector3 0 0 0) (Some example_map) =
     (\<lparr> stages = [example_stage_at ''b.json'' ''b'', example_stage_at ''c.json'' ''c''],
        isDisposed = False, classes = example_classes, oldestURL = ''b.json'',
        trace = [Fetch ''c.json'', ChunksCreated ''c'', ObjectCreated ''lift'',
                 WarnClassNotFound 9 ''ghost'', StartPlaying ''lift'',
                 StopPlaying ''lift'', ObjectDisposed ''lift'', ChunksDisposed ''a'',
                 OldestURLStored ''b.json''] \<rparr>,
      Inr ''c.json'')"
proof -
  let ?w1 = "example_world\<lparr> trace := trace example_world @ [Fetch ''c.json''] \<rparr>"
  have "doLoad_resume ?w1 ''c.json'' (Vector3 0 0 0) example_map =
          ?w1\<lparr> stages := [example_stage_at ''b.json'' ''b'',
                          fst (Stage_new ''c.json'' (Vector3 0 0 0) example_map (classes ?w1))],
               trace := trace ?w1 @ snd (Stage_new ''c.json'' (Vector3 0 0 0) example_map (classes ?w1))
                          @ Stage_dispose (example_stage_at ''a.json'' ''a'')
                          @ [OldestURLStored (stage_url (example_stage_at ''b.json'' ''b''))],
               oldestURL := stage_url (example_stage_at ''b.json'' ''b'') \<rparr>"
    by (rule doLoad_resume_evicts) (simp_all add: example_world_def)
  then show ?thesis
    using example_not_found
    by (simp add: doLoad_def example_world_def example_Stage_new example_Stage_dispose
        example_stage_url)
qed

lemma example_loading_run:
  "run example_loading [Dispose, FetchResolved example_map] =
     \<lparr> rt_world = example_world\<lparr> trace :=
          [Fetch ''c.json'', StopPlaying ''lift'', ObjectDisposed ''lift'', ChunksDisposed ''a'',
           StopPlaying ''lift'', ObjectDisposed ''lift'', ChunksDisposed ''b''],
          isDisposed := True \<rparr>,
       pending = [], running = None, resolved = [''c.json''], rejected = [] \<rparr>"
  by (simp add: run_def example_loading_def StageManager_dispose_def example_world_def
      example_Stage_dispose doLoad_resume_def queue_next_def)

subsection \<open>Eviction\<close>



text \<open>
  Claim C4, as amended. When a load pushes the number of stages above two, the stage at
  index 0 is removed and disposed; the url then stored as \<open>oldestURL\<close> is the url of the
  stage that is at index 0 after the removal (the second oldest before the load), not the
  url of the stage that was removed.
\<close>

theorem oldestURL_is_oldest_remaining:
  "length (stages w) \<ge> 2 \<and> \<not> isDisposed w \<and> \<not> doLoad_found w url position \<longrightarrow>
     (let w' = fst (doLoad w url position (Some m))
      in stages w' = tl (stages w) @ [fst (Stage_new url position m (classes w))]
         \<and> (\<exists>before. trace w' = before @ Stage_dispose (stages w ! 0)
                                   @ [OldestURLStored (oldestURL w')])
         \<and> oldestURL w' = stage_url (stages w' ! 0)
         \<and> oldestURL w' = stage_url (stages w ! 1))"
proof
  assume h: "length (stages w) \<ge> 2 \<and> \<not> isDisposed w \<and> \<not> doLoad_found w url position"
  then obtain a b rest where st: "stages w = a # b # rest"
    by (cases "stages w"; cases "tl (stages w)") auto
  let ?w1 = "w\<lparr> trace := trace w @ [Fetch url] \<rparr>"
  let ?new = "Stage_new url position m (classes w)"
  have d: "doLoad w url position (Some m) = (doLoad_resume ?w1 url position m, Inr url)"
    using h by (simp add: doLoad_def)
  have r: "doLoad_resume ?w1 url position m =
      ?w1\<lparr> stages := b # rest @ [fst ?new],
            trace := trace ?w1 @ snd ?new @ Stage_dispose a @ [OldestURLStored (stage_url b)],
            oldestURL := stage_url b \<rparr>"
    using h st by (simp add: doLoad_resume_def Let_def)
  show "let w' = fst (doLoad w url position (Some m))
      in stages w' = tl (stages w) @ [fst (Stage_new url position m (classes w))]
         \<and> (\<exists>before. trace w' = before @ Stage_dispose (stages w ! 0)
                                   @ [OldestURLStored (oldestURL w')])
         \<and> oldestURL w' = stage_url (stages w' ! 0)
         \<and> oldestURL w' = stage_url (stages w ! 1)"
    unfolding Let_def d fst_conv r
    by (simp add: st)
qed

theorem oldestURL_is_oldest_remaining_witness:
  "length (stages example_world) \<ge> 2 \<and> \<not> isDisposed example_world
   \<and> \<not> doLoad_found example_world ''c.json'' (Vector3 0 0 0)
   \<and> oldestURL (fst (doLoad example_world ''c.json'' (Vector3 0 0 0) (Some example_map)))
       = stage_url (stages example_world ! 1)
   \<and> stage_url (stages example_world ! 1) = ''b.json''"
  using oldestURL_is_oldest_remaining [of example_world "''c.json''" "Vector3 0 0 0" example_map]
    example_not_found
  by (simp add: Let_def) (simp add: example_world_def example_stage_url)

text \<open>
  The claim as stated fails on the example pager: it holds the stages of \<open>a.json\<close> and
  \<open>b.json\<close>, the load of \<open>c.json\<close> removes the stage of \<open>a.json\<close>, and the
  url stored is \<open>b.json\<close>.
\<close>

theorem oldestURL_not_evicted_counterexample:
  "length (stages example_world) = 2
   \<and> \<not> isDisposed example_world
   \<and> stages (fst (doLoad example_world ''c.json'' (Vector3 0 0 0) (Some example_map)))
       = tl (stages example_world) @ [example_stage_at ''c.json'' ''c'']
   \<and> stage_url (stages example_world ! 0) = ''a.json''
   \<and> oldestURL (fst (doLoad example_world ''c.json'' (Vector3 0 0 0) (Some example_map)))
       = ''b.json''
   \<and> oldestURL (fst (doLoad example_world ''c.json'' (Vector3 0 0 0) (Some example_map)))
       \<noteq> stage_url (stages example_world ! 0)"
  by (simp add: example_doLoad) (simp add: example_world_def example_stage_url)

subsection \<open>After disposal\<close>

text \<open>
  Claim C3. The continuation of a load that completes on a disposed pager changes
  nothing. \<open>dispose()\<close> disposes every stage of the list and marks the pager; from then
  on, whatever calls were queued or waiting for their fetch and whatever follows, no stage
  is constructed and the list of stages does not change: the trace after the disposals
  holds no construction.
\<close>

theorem no_construction_after_dispose:
  "(isDisposed w \<longrightarrow> doLoad_resume w url position m = w)
   \<and> stages (rt_world (run rt (Dispose # inputs))) = stages (rt_world rt)
   \<and> isDisposed (rt_world (run rt (Dispose # inputs)))
   \<and> (\<exists>new. trace (rt_world (run rt (Dispose # inputs))) =
              trace (rt_world rt) @ concat (map Stage_dispose (stages (rt_world rt))) @ new
            \<and> filter is_construct new = [])"
proof -
  let ?rt1 = "step rt Dispose"
  have r: "run rt (Dispose # inputs) = run ?rt1 inputs" by (simp add: run_def)
  have d: "isDisposed (rt_world ?rt1)" by (simp add: StageManager_dispose_def)
  have s: "stages (rt_world ?rt1) = stages (rt_world rt)" by (simp add: StageManager_dispose_def)
  have t: "trace (rt_world ?rt1) =
             trace (rt_world rt) @ concat (map Stage_dispose (stages (rt_world rt)))"
    by (simp add: StageManager_dispose_def)
  from run_disposed [OF d, of inputs] show ?thesis
    unfolding r s t by (simp add: doLoad_resume_disposed)
qed

theorem no_construction_after_dispose_witness:
  "isDisposed (StageManager_dispose example_world)
   \<and> doLoad_resume (StageManager_dispose example_world) ''c.json'' (Vector3 0 0 0) example_map
       = StageManager_dispose example_world
   \<and> running example_loading = Some (''c.json'', Vector3 0 0 0)
   \<and> stages (rt_world (run example_loading [Dispose, FetchResolved example_map]))
       = stages (rt_world example_loading)
   \<and> trace (rt_world (run example_loading [Dispose, FetchResolved example_map])) =
       [Fetch ''c.json'', StopPlaying ''lift'', ObjectDisposed ''lift'', ChunksDisposed ''a'',
        StopPlaying ''lift'', ObjectDisposed ''lift'', ChunksDisposed ''b'']
   \<and> resolved (run example_loading [Dispose, FetchResolved example_map]) = [''c.json'']"
proof -
  have d: "isDisposed (StageManager_dispose example_world)"
    by (simp add: StageManager_dispose_def)
  show ?thesis
    using no_construction_after_dispose [of "StageManager_dispose example_world" "''c.json''"
        "Vector3 0 0 0" example_map example_loading "[FetchResolved example_map]"] d
    by (simp add: example_loading_run) (simp add: example_loading_def)
qed

subsection \<open>Two calls for the same stage\<close>



section \<open>The cursor: picks, drags and corners\<close>

subsection \<open>Keys, indices and whole numbers\<close>

lemma nat_toString_digit: "n < 10 \<Longrightarrow> nat_toString n = [''0123456789'' ! n]"
  by simp

lemma Number_toString_units:
  "Number_toString 0 = ''0''" "Number_toString 1 = ''1''" "Number_toString (- 1) = ''-1''"
  by (simp_all add: Number_toString_def)

lemma direction_keys:
  "join ''/'' (map Number_toString [1, 0, 0]) = ''1/0/0''"
  "join ''/'' (map Number_toString [- 1, 0, 0]) = ''-1/0/0''"
  "join ''/'' (map Number_toString [0, 1, 0]) = ''0/1/0''"
  "join ''/'' (map Number_toString [0, - 1, 0]) = ''0/-1/0''"
  "join ''/'' (map Number_toString [0, 0, 1]) = ''0/0/1''"
  "join ''/'' (map Number_toString [0, 0, - 1]) = ''0/0/-1''"
  by (simp_all add: Number_toString_units)





lemma up_norm:
  "array_at CURSOR_NORMALS (indexOf [0, - 0, 1, - 1, 0, - 0] (max (max \<bar>0\<bar> \<bar>1\<bar>) \<bar>0::real\<bar>))
     = Some (Vector3 0 1 0)"
  by (simp add: array_at_def CURSOR_NORMALS_def)













lemma Minimize_eq: "Vector3_Minimize a b = elementwise_min a b"
  by (simp add: Vector3_Minimize_def elementwise_min_def min_def)

lemma Maximize_eq: "Vector3_Maximize a b = elementwise_max a b"
  by (simp add: Vector3_Maximize_def elementwise_max_def max_def)


subsection \<open>The pick on the meshes\<close>







subsection \<open>The two updates\<close>




lemma updateWithMouseDown_Inr:
  assumes "map_of DIRECTIONS (cursor_direction c) = Some (rot, delta, ax, i, j, k)"
    and "getMousePickOnPlane sc (x + offset_x c) (y + offset_y c) ax (component (start c) ax)
           = Inr p"
  shows "updateWithMouseDown c sc x y =
     Inr (c\<lparr> hover := p,
            minimum := Vector3_Minimize (start c) p,
            maximum := Vector3_add (Vector3_Maximize (start c) p) VECTOR_ONE,
            mesh_position :=
              Vector3_scale (Vector3_add (Vector3_Minimize (start c) p)
                 (Vector3_add (Vector3_Maximize (start c) p) VECTOR_ONE)) 0.5,
            mesh_scaling :=
              (let scaling = Vector3_subtract
                     (Vector3_add (Vector3_Maximize (start c) p) VECTOR_ONE)
                     (Vector3_Minimize (start c) p)
               in Vector3 (component scaling i) (component scaling j) (component scaling k)) \<rparr>)"
  unfolding updateWithMouseDown_def assms option.case prod.case sum.case Let_def ..

lemma getMousePickOnPlane_cases:
  "getMousePickOnPlane sc px py ax val =
     (if component (direction (createPickingRay sc px py)) ax = 0 then Inl NonFinite
      else Inr (floor_half (Vector3_add (origin (createPickingRay sc px py))
             (Vector3_scale (direction (createPickingRay sc px py))
                ((val - component (origin (createPickingRay sc px py)) ax)
                   / component (direction (createPickingRay sc px py)) ax)))))"
  by (simp add: getMousePickOnPlane_def Let_def)




subsection \<open>Runs of events\<close>




subsection \<open>The example scenes\<close>





lemma picked_cursor_direction:
  "map_of DIRECTIONS (cursor_direction picked_cursor) =
     Some (Vector3 0 0 0, Vector3 1 1 1, AxisY, AxisX, AxisY, AxisZ)"
  by (simp add: picked_cursor_def DIRECTIONS_def)

lemma picked_cursor_plane:
  "getMousePickOnPlane empty_scene (4 + offset_x picked_cursor) (- 3 + offset_y picked_cursor)
       AxisY (component (start picked_cursor) AxisY) = Inr (Vector3 5 0 (- 1))"
  by (simp add: getMousePickOnPlane_cases empty_scene_def picked_cursor_def floor_half_def
      Vector3_add_def Vector3_scale_def Math_floor_def)

lemma picked_cursor_drag:
  "updateWithMouseDown picked_cursor empty_scene 4 (- 3) =
     Inr (picked_cursor\<lparr> hover := Vector3 5 0 (- 1), minimum := Vector3 2 0 (- 1),
           maximum := Vector3 6 1 5, mesh_position := Vector3 4 0.5 2,
           mesh_scaling := Vector3 4 1 6 \<rparr>)"
  unfolding updateWithMouseDown_Inr [OF picked_cursor_direction picked_cursor_plane]
  by (simp add: picked_cursor_def Vector3_Minimize_def Vector3_Maximize_def Vector3_add_def
      Vector3_subtract_def Vector3_scale_def VECTOR_ONE_def)


subsection \<open>The projection on the surface\<close>




subsection \<open>The corners during a drag\<close>

lemma floor_half_on_plane:
  assumes "is_integer val" and "component (direction r) ax \<noteq> 0"
  shows "component (floor_half (Vector3_add (origin r)
           (Vector3_scale (direction r)
              ((val - component (origin r) ax) / component (direction r) ax)))) ax = val"
proof -
  have i: "of_int \<lfloor>val + 1 / 2\<rfloor> = val"
  proof -
    from assms(1) obtain k :: int where k: "val = of_int k"
      by (auto simp: is_integer_def)
    have "\<lfloor>(of_int k :: real) + 1 / 2\<rfloor> = k" by linarith
    then show ?thesis by (simp add: k)
  qed
  show ?thesis
    using assms(2) i
    by (cases ax) (simp_all add: floor_half_def Vector3_add_def Vector3_scale_def Math_floor_def)
qed

text \<open>
  Claim C6. During a drag, for every start point and every position \<open>current\<close> that
  the projection of the pointer on the drag plane returns, \<open>updateWithMouseDown\<close>
  sets \<open>minimum\<close> to the elementwise minimum of start and current and
  \<open>maximum\<close> to their elementwise maximum plus \<open>(1, 1, 1)\<close>; the start point is
  kept, and current lies in the plane of a whole start coordinate.
\<close>

theorem drag_corners_min_max:
  assumes "map_of DIRECTIONS (cursor_direction c) = Some (rot, delta, ax, i, j, k)"
    and "getMousePickOnPlane sc (x + offset_x c) (y + offset_y c) ax (component (start c) ax)
           = Inr current"
  shows "\<exists>c'. updateWithMouseDown c sc x y = Inr c'
           \<and> hover c' = current \<and> start c' = start c
           \<and> minimum c' = elementwise_min (start c) current
           \<and> maximum c' = Vector3_add (elementwise_max (start c) current) (Vector3 1 1 1)
           \<and> (if is_integer (component (start c) ax)
               then component current ax = component (start c) ax else True)"
proof -
  have plane: "is_integer (component (start c) ax) \<Longrightarrow>
                 component current ax = component (start c) ax"
  proof -
    assume w: "is_integer (component (start c) ax)"
    let ?r = "createPickingRay sc (x + offset_x c) (y + offset_y c)"
    from assms(2) have nz: "component (direction ?r) ax \<noteq> 0"
      by (auto simp: getMousePickOnPlane_cases split: if_splits)
    with assms(2) have "current = floor_half (Vector3_add (origin ?r)
           (Vector3_scale (direction ?r)
              ((component (start c) ax - component (origin ?r) ax) / component (direction ?r) ax)))"
      by (simp add: getMousePickOnPlane_cases)
    then show ?thesis using floor_half_on_plane [OF w nz] by simp
  qed
  show ?thesis
    unfolding updateWithMouseDown_Inr [OF assms]
    using plane by (simp add: Minimize_eq Maximize_eq VECTOR_ONE_def)
qed

theorem drag_corners_min_max_witness:
  "map_of DIRECTIONS (cursor_direction picked_cursor) =
     Some (Vector3 0 0 0, Vector3 1 1 1, AxisY, AxisX, AxisY, AxisZ)
   \<and> getMousePickOnPlane empty_scene (4 + offset_x picked_cursor) (- 3 + offset_y picked_cursor)
       AxisY (component (start picked_cursor) AxisY) = Inr (Vector3 5 0 (- 1))
   \<and> start picked_cursor = Vector3 2 0 4
   \<and> updateWithMouseDown picked_cursor empty_scene 4 (- 3) =
       Inr (picked_cursor\<lparr> hover := Vector3 5 0 (- 1), minimum := Vector3 2 0 (- 1),
             maximum := Vector3 6 1 5, mesh_position := Vector3 4 0.5 2,
             mesh_scaling := Vector3 4 1 6 \<rparr>)"
proof -
  have s: "start picked_cursor = Vector3 2 0 4" by (simp add: picked_cursor_def)
  show ?thesis
    using drag_corners_min_max [OF picked_cursor_direction picked_cursor_plane]
    by (intro conjI picked_cursor_direction picked_cursor_plane picked_cursor_drag s)
qed

subsection \<open>The corners after every update\<close>




section \<open>Unknown classes\<close>

subsection \<open>The loop of the constructor\<close>







subsection \<open>The object manager\<close>





lemma example_create_fresh:
  "objectManager_create example_classes example_editor ''object/ghost/2'' 9 (Vector3 0 0 0) [] =
     example_editor\<lparr> ed_console := [WarnClassNotFound 9 ''object/ghost/2''] \<rparr>"
  by (simp add: objectManager_create_def objectManager_destroy_def example_classes_def
      example_editor_def)

lemma example_create_over:
  "objectManager_create example_classes example_editor ''object/lift/1'' 9 (Vector3 0 0 0) [] =
     \<lparr> ed_meshes = [], ed_objectsData = [], selectedObject = None,
       ed_console = [WarnClassNotFound 9 ''object/lift/1''] \<rparr>"
  by (simp add: objectManager_create_def objectManager_destroy_def example_classes_def
      example_editor_def)



section \<open>The rectangle brush\<close>

lemma loop_values_step: "m < hi \<Longrightarrow> loop_values m hi = m # loop_values (m + 1) hi"
  by (subst loop_values.simps) simp

lemma loop_values_done: "\<not> m < hi \<Longrightarrow> loop_values m hi = []"
  by (subst loop_values.simps) simp

lemma loop_values_mem:
  "v \<in> set (loop_values m hi) \<longleftrightarrow> v < hi \<and> (\<exists>a::nat. v = m + real a)"
proof (induction m hi rule: loop_values.induct)
  case (1 m hi)
  show ?case
  proof (cases "m < hi")
    case True
    have IH: "v \<in> set (loop_values (m + 1) hi) \<longleftrightarrow> v < hi \<and> (\<exists>a::nat. v = m + 1 + real a)"
      using "1.IH" [OF True] .
    have "(\<exists>a::nat. v = m + real a) \<longleftrightarrow> v = m \<or> (\<exists>b::nat. v = m + 1 + real b)"
    proof
      assume "\<exists>a::nat. v = m + real a"
      then obtain a :: nat where a: "v = m + real a" ..
      show "v = m \<or> (\<exists>b::nat. v = m + 1 + real b)"
      proof (cases a)
        case 0
        then show ?thesis using a by simp
      next
        case (Suc b)
        then have "v = m + 1 + real b" using a by simp
        then show ?thesis by (intro disjI2 exI)
      qed
    next
      assume "v = m \<or> (\<exists>b::nat. v = m + 1 + real b)"
      then show "\<exists>a::nat. v = m + real a"
      proof
        assume "v = m"
        then have "v = m + real 0" by simp
        then show ?thesis by (rule exI)
      next
        assume "\<exists>b::nat. v = m + 1 + real b"
        then obtain b :: nat where "v = m + 1 + real b" ..
        then have "v = m + real (Suc b)" by simp
        then show ?thesis by (rule exI)
      qed
    qed
    then show ?thesis
      using True IH by (auto simp only: loop_values_step [OF True] set_simps insert_iff)
  next
    case False
    have "\<not> (v < hi \<and> (\<exists>a::nat. v = m + real a))"
    proof
      assume "v < hi \<and> (\<exists>a::nat. v = m + real a)"
      then obtain a :: nat where "v < hi" "v = m + real a" by blast
      then show False using False by simp
    qed
    then show ?thesis by (simp only: loop_values_done [OF False]) simp
  qed
qed

lemma shiftBrush_ops:
  "shiftBrush_onUp c h t =
     concat (map (\<lambda>m. map (\<lambda>n. Push_SetPixelAction m n
                 \<lparr> pixel_t = t,
                   pixel_h = (if h = [] then HEmpty
                              else (case parseInt h of
                                      None \<Rightarrow> HNaN
                                    | Some k \<Rightarrow> HNum (vy (maximum c) - 1 + of_int k))) \<rparr>)
                            (loop_values (vz (minimum c)) (vz (maximum c))))
                   (loop_values (vx (minimum c)) (vx (maximum c))))
         @ [Commit]"
  by (simp add: shiftBrush_onUp_def Let_def)

lemma parseInt_examples:
  "parseInt ''+1'' = Some 1" "parseInt ''-1'' = Some (- 1)" "parseInt ''0'' = Some 0"
  "parseInt '''' = None" "parseInt ''  42px'' = Some 42" "parseInt ''0x1f'' = Some 31"
  "parseInt ''up'' = None"
  by (simp_all add: parseInt_def isWhiteSpace_def digitOf_def fromDigits_def)

lemma loop_values_examples:
  "loop_values 2 4 = [2, 3]" "loop_values 4 6 = [4, 5]"
  by (simp_all add: loop_values_step loop_values_done)

lemma example_brush:
  "shiftBrush_onUp dragged_cursor ''+1'' (3::nat) =
     [Push_SetPixelAction 2 4 \<lparr> pixel_t = 3, pixel_h = HNum 1 \<rparr>,
      Push_SetPixelAction 2 5 \<lparr> pixel_t = 3, pixel_h = HNum 1 \<rparr>,
      Push_SetPixelAction 3 4 \<lparr> pixel_t = 3, pixel_h = HNum 1 \<rparr>,
      Push_SetPixelAction 3 5 \<lparr> pixel_t = 3, pixel_h = HNum 1 \<rparr>,
      Commit]"
  by (simp add: shiftBrush_ops dragged_cursor_def picked_cursor_def parseInt_examples
      loop_values_examples)

text \<open>
  Claim C9. When the shift drag is released with a non-empty height selection \<open>h\<close>
  that reads as the whole number \<open>k\<close>, every \<open>SetPixelAction\<close> pushed carries the
  height \<open>maximum.y - 1 + k\<close>; the actions cover the cells from the minimum corner on,
  in steps of one, below the maximum corner, and the commit comes last.
\<close>

theorem shiftBrush_flat_height:
  "h \<noteq> [] \<and> parseInt h = Some k \<longrightarrow>
     (\<forall>m n px. Push_SetPixelAction m n px \<in> set (shiftBrush_onUp c h t) \<longrightarrow>
        px = \<lparr> pixel_t = t, pixel_h = HNum (vy (maximum c) - 1 + of_int k) \<rparr>
        \<and> vx (minimum c) \<le> m \<and> m < vx (maximum c)
        \<and> vz (minimum c) \<le> n \<and> n < vz (maximum c))
     \<and> (\<forall>a b. vx (minimum c) + real a < vx (maximum c)
              \<and> vz (minimum c) + real b < vz (maximum c) \<longrightarrow>
          Push_SetPixelAction (vx (minimum c) + real a) (vz (minimum c) + real b)
              \<lparr> pixel_t = t, pixel_h = HNum (vy (maximum c) - 1 + of_int k) \<rparr>
            \<in> set (shiftBrush_onUp c h t))
     \<and> last (shiftBrush_onUp c h t) = Commit"
proof
  assume h: "h \<noteq> [] \<and> parseInt h = Some k"
  let ?px = "\<lparr> pixel_t = t, pixel_h = HNum (vy (maximum c) - 1 + of_int k) \<rparr>"
  have ops: "shiftBrush_onUp c h t =
     concat (map (\<lambda>m. map (\<lambda>n. Push_SetPixelAction m n ?px)
                            (loop_values (vz (minimum c)) (vz (maximum c))))
                   (loop_values (vx (minimum c)) (vx (maximum c))))
         @ [Commit]"
    using h by (simp add: shiftBrush_ops)
  have mem: "\<And>m n px. Push_SetPixelAction m n px \<in> set (shiftBrush_onUp c h t) \<longleftrightarrow>
      px = ?px \<and> m \<in> set (loop_values (vx (minimum c)) (vx (maximum c)))
              \<and> n \<in> set (loop_values (vz (minimum c)) (vz (maximum c)))"
    unfolding ops by auto
  show "(\<forall>m n px. Push_SetPixelAction m n px \<in> set (shiftBrush_onUp c h t) \<longrightarrow>
        px = ?px
        \<and> vx (minimum c) \<le> m \<and> m < vx (maximum c)
        \<and> vz (minimum c) \<le> n \<and> n < vz (maximum c))
     \<and> (\<forall>a b. vx (minimum c) + real a < vx (maximum c)
              \<and> vz (minimum c) + real b < vz (maximum c) \<longrightarrow>
          Push_SetPixelAction (vx (minimum c) + real a) (vz (minimum c) + real b) ?px
            \<in> set (shiftBrush_onUp c h t))
     \<and> last (shiftBrush_onUp c h t) = Commit"
  proof (intro conjI allI impI)
    fix m n px
    assume "Push_SetPixelAction m n px \<in> set (shiftBrush_onUp c h t)"
    then have p: "px = ?px" and m: "m \<in> set (loop_values (vx (minimum c)) (vx (maximum c)))"
      and n: "n \<in> set (loop_values (vz (minimum c)) (vz (maximum c)))"
      by (simp_all add: mem)
    from m obtain a :: nat where a: "m < vx (maximum c)" "m = vx (minimum c) + real a"
      by (auto simp: loop_values_mem)
    from n obtain b :: nat where b: "n < vz (maximum c)" "n = vz (minimum c) + real b"
      by (auto simp: loop_values_mem)
    show "px = ?px" by (rule p)
    show "vx (minimum c) \<le> m" using a(2) by simp
    show "m < vx (maximum c)" by (rule a(1))
    show "vz (minimum c) \<le> n" using b(2) by simp
    show "n < vz (maximum c)" by (rule b(1))
  next
    fix a b :: nat
    assume "vx (minimum c) + real a < vx (maximum c)
              \<and> vz (minimum c) + real b < vz (maximum c)"
    then have "vx (minimum c) + real a \<in> set (loop_values (vx (minimum c)) (vx (maximum c)))"
      "vz (minimum c) + real b \<in> set (loop_values (vz (minimum c)) (vz (maximum c)))"
      unfolding loop_values_mem by blast+
    then show "Push_SetPixelAction (vx (minimum c) + real a) (vz (minimum c) + real b) ?px
            \<in> set (shiftBrush_onUp c h t)"
      by (simp add: mem)
  next
    show "last (shiftBrush_onUp c h t) = Commit" by (simp add: ops)
  qed
qed

theorem shiftBrush_flat_height_witness:
  "''+1'' \<noteq> [] \<and> parseInt ''+1'' = Some 1
   \<and> vy (maximum dragged_cursor) = 1
   \<and> shiftBrush_onUp dragged_cursor ''+1'' (3::nat) =
     [Push_SetPixelAction 2 4 \<lparr> pixel_t = 3, pixel_h = HNum 1 \<rparr>,
      Push_SetPixelAction 2 5 \<lparr> pixel_t = 3, pixel_h = HNum 1 \<rparr>,
      Push_SetPixelAction 3 4 \<lparr> pixel_t = 3, pixel_h = HNum 1 \<rparr>,
      Push_SetPixelAction 3 5 \<lparr> pixel_t = 3, pixel_h = HNum 1 \<rparr>,
      Commit]"
proof -
  have m: "vy (maximum dragged_cursor) = 1" by (simp add: dragged_cursor_def)
  have n: "''+1'' \<noteq> []" by simp
  show ?thesis
    using shiftBrush_flat_height [of "''+1''" 1 dragged_cursor "3::nat"]
    by (intro conjI n m parseInt_examples example_brush)
qed

end
